theory Spec2Isabelle
  imports Complex_Main
begin

section \<open>Deep generative models: the orchestration code of models.py\<close>

text \<open>
  The development embeds the parts of \<^verbatim>\<open>models.py\<close> that decide how a model is
  constructed, trained, saved and sampled. Tensors are lists of reals and arithmetic on
  their elements is exact; the one rounding that is part of the model is that of the
  clipping bounds of \<open>log_cb_constant\<close>, to double and then to single precision. Python
  integers are \<^typ>\<open>int\<close>, and every exception the embedded lines can raise is a value of
  \<open>error\<close>. The networks themselves, their gradients and the plotting are outside
  the embedding: what is kept of an optimizer is its iteration counter.
\<close>

subsection \<open>Exceptions and the specification dictionary\<close>

text \<open>
  The exceptions of Python that the embedded code raises. \<open>ValueError\<close> carries its
  message, since the source distinguishes its uses only by the message.
\<close>

datatype error =
    ValueError string
  | TypeError string
  | KeyError string
  | IndexError
  | StopIteration
  | ZeroDivisionError
  | UnboundLocalError string

text \<open>
  The specification is a dictionary read from JSON. Each key the embedded code reads
  is a field holding \<open>None\<close> when the key is absent, typed as the code uses it.
\<close>

record spec =
  spec_latent_dim :: "int option"
  spec_image_dims :: "int list option"
  spec_epochs :: "int option"
  spec_gen_train_steps :: "int option"
  spec_vae_beta :: "real option"
  spec_beta_schedule :: "string option"
  spec_beta_cycle_length :: "int option"

subsection \<open>Numeric helpers of Python and numpy\<close>

text \<open>
  \<^verbatim>\<open>int(a / b)\<close> on Python integers: true division, then truncation towards zero.
  Division by zero raises.
\<close>

definition int_truediv :: "int \<Rightarrow> int \<Rightarrow> error + int" where
  "int_truediv a b =
     (if b = 0 then Inl ZeroDivisionError
      else Inr (sgn a * sgn b * (\<bar>a\<bar> div \<bar>b\<bar>)))"

text \<open>
  \<^verbatim>\<open>a % b\<close> where \<open>a\<close> is a numpy integer scalar: the sign follows the divisor as in
  Python, and a zero divisor gives 0 (with a warning) instead of raising.
\<close>

definition np_mod :: "int \<Rightarrow> int \<Rightarrow> int" where
  "np_mod a b = (if b = 0 then 0 else a mod b)"

text \<open>\<^verbatim>\<open>a % b\<close> on Python integers: a zero divisor raises.\<close>

definition py_mod :: "int \<Rightarrow> int \<Rightarrow> error + int" where
  "py_mod a b = (if b = 0 then Inl ZeroDivisionError else Inr (a mod b))"

text \<open>
  \<^verbatim>\<open>np.linspace(start, stop, num)\<close>: \<open>num\<close> evenly spaced values with both ends
  included. A negative \<open>num\<close> raises, \<open>num = 1\<close> gives the start alone.
\<close>

definition linspace :: "real \<Rightarrow> real \<Rightarrow> int \<Rightarrow> error + real list" where
  "linspace start stop num =
     (if num < 0 then Inl (ValueError ''Number of samples must be non-negative'')
      else if num = 1 then Inr [start]
      else Inr (map (\<lambda>i. start + real i * ((stop - start) / real_of_int (num - 1)))
                  [0 ..< nat num]))"

text \<open>\<^verbatim>\<open>np.ones(n)\<close>: a negative length raises.\<close>

definition np_ones :: "int \<Rightarrow> error + real list" where
  "np_ones n =
     (if n < 0 then Inl (ValueError ''negative dimensions are not allowed'')
      else Inr (replicate (nat n) 1))"

text \<open>\<^verbatim>\<open>np.tile(a, reps)\<close> on a vector, for \<open>reps\<close> at least 0.\<close>

definition np_tile :: "real list \<Rightarrow> nat \<Rightarrow> real list" where
  "np_tile a reps = concat (replicate reps a)"

text \<open>\<^verbatim>\<open>a[i]\<close> on a numpy vector with a non-negative index.\<close>

definition np_index :: "'a list \<Rightarrow> nat \<Rightarrow> error + 'a" where
  "np_index a i = (if i < length a then Inr (a ! i) else Inl IndexError)"

text \<open>\<^verbatim>\<open>a[0:n]\<close>: a negative \<open>n\<close> counts from the end.\<close>

definition slice_to :: "int \<Rightarrow> 'a list \<Rightarrow> 'a list" where
  "slice_to n a =
     (if 0 \<le> n then take (nat n) a else take (length a - nat (- n)) a)"

text \<open>\<^verbatim>\<open>p in s\<close> on strings: \<open>p\<close> occurs in \<open>s\<close> as a contiguous run.\<close>

fun starts_with :: "string \<Rightarrow> string \<Rightarrow> bool" where
  "starts_with [] s = True"
| "starts_with (p # ps) [] = False"
| "starts_with (p # ps) (c # cs) = (p = c \<and> starts_with ps cs)"

fun str_contains :: "string \<Rightarrow> string \<Rightarrow> bool" where
  "str_contains p [] = starts_with p []"
| "str_contains p (c # cs) = (starts_with p (c # cs) \<or> str_contains p cs)"

subsection \<open>Tensors\<close>

text \<open>
  An image batch has four axes (example, row, column, channel). Operations on two
  tensors are elementwise on equal shapes; broadcasting between different shapes is
  not part of the model (\<open>map2\<close> stops at the shorter list).
\<close>

type_synonym tensor4 = "real list list list list"

definition map4 :: "('a \<Rightarrow> 'b) \<Rightarrow> 'a list list list list \<Rightarrow> 'b list list list list" where
  "map4 f t = map (map (map (map f))) t"

definition zip_with4 ::
  "('a \<Rightarrow> 'b \<Rightarrow> 'c) \<Rightarrow> 'a list list list list \<Rightarrow> 'b list list list list
     \<Rightarrow> 'c list list list list" where
  "zip_with4 f s t = map2 (map2 (map2 (map2 f))) s t"

text \<open>\<^verbatim>\<open>tf.reduce_sum(t, axis=[1,2,3])\<close>: one sum per example.\<close>

definition reduce_sum_123 :: "tensor4 \<Rightarrow> real list" where
  "reduce_sum_123 t = map (\<lambda>ex. sum_list (map (\<lambda>row. sum_list (map sum_list row)) ex)) t"

text \<open>Two tensors have the same shape.\<close>

definition same_shape :: "'a list list list list \<Rightarrow> 'b list list list list \<Rightarrow> bool" where
  "same_shape s t = list_all2 (list_all2 (list_all2 (list_all2 (\<lambda>a b. True)))) s t"

text \<open>Every entry of a boolean tensor has the given value.\<close>

definition all_entries :: "bool \<Rightarrow> bool list list list list \<Rightarrow> bool" where
  "all_entries v t = list_all (list_all (list_all (list_all (\<lambda>b. b = v)))) t"

subsection \<open>GenerativeModel\<close>

text \<open>
  \<^verbatim>\<open>GenerativeModel.__init__(self, spec, dataset)\<close> is called with a list of positional
  arguments after \<open>self\<close>. Python binds them to the two parameters, neither of which
  has a default, and raises \<open>TypeError\<close> before the body runs when their number is
  not two. The body then subscripts the first argument with \<^verbatim>\<open>'latent_dim'\<close> and
  \<^verbatim>\<open>'image_dims'\<close>.
\<close>

datatype 'd pyarg = SpecArg spec | DatasetArg 'd

record 'd generative_model_base =
  base_spec :: spec
  base_dataset :: "'d pyarg"
  latent_dim :: int
  image_dims :: "int list"

fun GenerativeModel_init :: "'d pyarg list \<Rightarrow> error + 'd generative_model_base" where
  "GenerativeModel_init [SpecArg sp, dataset] =
     (case spec_latent_dim sp of
        None \<Rightarrow> Inl (KeyError ''latent_dim'')
      | Some l \<Rightarrow>
          (case spec_image_dims sp of
             None \<Rightarrow> Inl (KeyError ''image_dims'')
           | Some dims \<Rightarrow>
               Inr \<lparr>base_spec = sp, base_dataset = dataset, latent_dim = l,
                    image_dims = dims\<rparr>))"
| "GenerativeModel_init [DatasetArg d, dataset] =
     Inl (TypeError ''the first argument is not a specification'')"
| "GenerativeModel_init args =
     Inl (TypeError ''__init__() takes exactly the arguments spec and dataset'')"

text \<open>
  The two sub-networks are attributes that exist only once created or loaded:
  \<^verbatim>\<open>hasattr(self, 'generative_net')\<close> is \<open>generative_net m \<noteq> None\<close>.
\<close>

record 'net networks =
  generative_net :: "'net option"
  inference_net :: "'net option"

text \<open>
  The disk as \<open>save\<close> sees it: the files by path, and the calls made on it in order.
  \<open>Remove\<close> is \<^verbatim>\<open>os.remove\<close>, \<open>Save\<close> is Keras' \<^verbatim>\<open>Model.save(path, overwrite)\<close>, which
  writes the file unless it exists and \<open>overwrite\<close> is off (it then asks the user and
  is taken here not to write).
\<close>

datatype 'net disk_op = Remove string | Save string 'net bool

record 'net disk =
  files :: "string \<rightharpoonup> 'net"
  oplog :: "'net disk_op list"

definition exists :: "string \<Rightarrow> 'net disk \<Rightarrow> bool" where
  "exists path d = (files d path \<noteq> None)"

definition remove :: "string \<Rightarrow> 'net disk \<Rightarrow> 'net disk" where
  "remove path d = d\<lparr>files := (files d)(path := None), oplog := oplog d @ [Remove path]\<rparr>"

definition keras_save :: "string \<Rightarrow> 'net \<Rightarrow> bool \<Rightarrow> 'net disk \<Rightarrow> 'net disk" where
  "keras_save path net overwrite d =
     (if exists path d \<and> \<not> overwrite
      then d\<lparr>oplog := oplog d @ [Save path net overwrite]\<rparr>
      else d\<lparr>files := (files d)(path \<mapsto> net), oplog := oplog d @ [Save path net overwrite]\<rparr>)"

text \<open>One sub-network of \<open>save\<close>: remove the file if it is there, then write.\<close>

definition save_net :: "string \<Rightarrow> 'net \<Rightarrow> bool \<Rightarrow> 'net disk \<Rightarrow> 'net disk" where
  "save_net path net overwrite d =
     keras_save path net overwrite (if exists path d then remove path d else d)"

text \<open>
  \<^verbatim>\<open>GenerativeModel.save(self, prefix, overwrite)\<close>: the inference network first, then
  the generative one, and the check for a missing model last. The result is the disk
  after the call together with the exception, if any.
\<close>

definition save :: "'net networks \<Rightarrow> string \<Rightarrow> bool \<Rightarrow> 'net disk \<Rightarrow> (error + unit) \<times> 'net disk" where
  "save m prefix overwrite d =
     (let has_generator = (generative_net m \<noteq> None);
          has_inference = (inference_net m \<noteq> None);
          d1 = (case inference_net m of
                  None \<Rightarrow> d
                | Some net \<Rightarrow> save_net (prefix @ ''_inference_net.h5'') net overwrite d);
          d2 = (case generative_net m of
                  None \<Rightarrow> d1
                | Some net \<Rightarrow> save_net (prefix @ ''_generative_net.h5'') net overwrite d1)
      in if \<not> (has_generator \<or> has_inference)
         then (Inl (ValueError ''No model object found for saving.''), d2)
         else (Inr (), d2))"

text \<open>
  The calls the specification expects of \<open>save\<close> for one sub-network at \<open>path\<close>, on
  the disk \<open>d\<close> found at the start: none when the network is absent; otherwise the
  removal of the file if there is one, then the write.
\<close>

definition expected_ops :: "string \<Rightarrow> 'net option \<Rightarrow> bool \<Rightarrow> 'net disk \<Rightarrow> 'net disk_op list" where
  "expected_ops path net overwrite d =
     (case net of
        None \<Rightarrow> []
      | Some nt \<Rightarrow> (if exists path d then [Remove path] else []) @ [Save path nt overwrite])"

text \<open>
  The dataset: the static batch size of its elements (\<^verbatim>\<open>element_spec.shape[0]\<close>,
  \<open>None\<close> when the batches are not of a fixed size) and the minibatches a fresh
  iterator yields, each a list of examples.
\<close>

record 'a dataset =
  element_batch_size :: "nat option"
  batches :: "'a list list"

text \<open>
  \<^verbatim>\<open>[gen.next() for i in range(k)]\<close>: the first \<open>k\<close> minibatches of the iterator;
  \<open>StopIteration\<close> when it runs out.
\<close>

fun pull_batches :: "nat \<Rightarrow> 'a list list \<Rightarrow> error + 'a list list" where
  "pull_batches 0 it = Inr []"
| "pull_batches (Suc k) [] = Inl StopIteration"
| "pull_batches (Suc k) (b # it) =
     (case pull_batches k it of Inl e \<Rightarrow> Inl e | Inr bs \<Rightarrow> Inr (b # bs))"

text \<open>
  \<^verbatim>\<open>GenerativeModel.sample_training(self, n)\<close>. \<^verbatim>\<open>np.vstack\<close> of an empty list raises;
  examples of one dataset are taken to have one shape, so that it stacks any other
  list of minibatches.
\<close>

definition sample_training :: "'a dataset \<Rightarrow> int \<Rightarrow> error + 'a list" where
  "sample_training ds n =
     (case element_batch_size ds of
        None \<Rightarrow> Inl (TypeError ''unsupported operand type(s) for /: int and NoneType'')
      | Some batch_size \<Rightarrow>
          (case int_truediv n (int batch_size) of
             Inl e \<Rightarrow> Inl e
           | Inr q \<Rightarrow>
               (let n_batches = q + 1 in
                case pull_batches (nat n_batches) (batches ds) of
                  Inl e \<Rightarrow> Inl e
                | Inr bs \<Rightarrow>
                    if bs = [] then Inl (ValueError ''need at least one array to concatenate'')
                    else Inr (slice_to n (concat bs)))))"

text \<open>
  \<open>sample_training\<close> as the specification words it: pull whole minibatches until the
  number of examples pulled is at least \<open>n\<close>, then cut to the first \<open>n\<close>. \<open>None\<close> when
  the iterator runs out first.
\<close>

fun pull_until :: "nat \<Rightarrow> 'a list list \<Rightarrow> 'a list \<Rightarrow> 'a list option" where
  "pull_until n [] acc = (if n \<le> length acc then Some (take n acc) else None)"
| "pull_until n (b # it) acc =
     (if n \<le> length acc then Some (take n acc) else pull_until n it (acc @ b))"

definition sample_training_spec :: "'a dataset \<Rightarrow> nat \<Rightarrow> 'a list option" where
  "sample_training_spec ds n = pull_until n (batches ds) []"

text \<open>
  The batch given to \<open>create_masked_logp\<close>: a plain array, or a numpy masked array
  with its data and its mask. In a numpy masked array a \<open>True\<close> entry of the mask
  marks the element as masked out.
\<close>

datatype batch = Plain tensor4 | MaskedArray tensor4 "bool list list list list"

text \<open>\<open>is_used\<close> is the scalar 1 or a tensor of the batch's shape.\<close>

datatype keep = KeepAll | KeepMask tensor4

definition is_used_of :: "batch \<Rightarrow> keep" where
  "is_used_of b =
     (case b of
        MaskedArray dat is_masked \<Rightarrow>
          KeepMask (map4 (\<lambda>v. real_of_int (1 - (if v then 1 else 0))) is_masked)
      | Plain dat \<Rightarrow> KeepAll)"

definition raw_data_of :: "batch \<Rightarrow> tensor4" where
  "raw_data_of b = (case b of MaskedArray dat is_masked \<Rightarrow> dat | Plain dat \<Rightarrow> dat)"

definition times_keep :: "tensor4 \<Rightarrow> keep \<Rightarrow> tensor4" where
  "times_keep t k =
     (case k of KeepAll \<Rightarrow> map4 (\<lambda>v. v * 1) t | KeepMask u \<Rightarrow> zip_with4 (*) t u)"

text \<open>The optional final activation: \<open>None\<close> leaves the network's output as it is.\<close>

definition apply_activation :: "(tensor4 \<Rightarrow> tensor4) option \<Rightarrow> tensor4 \<Rightarrow> tensor4" where
  "apply_activation final_activation_fn x =
     (case final_activation_fn of None \<Rightarrow> x | Some act \<Rightarrow> act x)"

text \<open>
  \<^verbatim>\<open>GenerativeModel.create_masked_logp\<close>: the closure \<open>logp\<close> it returns, applied to
  \<open>z\<close>. The attributes \<^verbatim>\<open>self.generative_net\<close> and \<^verbatim>\<open>self.log_prior_fn\<close> that the closure
  reads are the first two arguments; \<open>loss_kwargs\<close> is passed on to the loss.
\<close>

definition create_masked_logp ::
  "('z \<Rightarrow> tensor4) \<Rightarrow> ('z \<Rightarrow> real list) \<Rightarrow> batch \<Rightarrow> (tensor4 \<Rightarrow> tensor4 \<Rightarrow> 'kw \<Rightarrow> tensor4) \<Rightarrow> 'kw
     \<Rightarrow> (tensor4 \<Rightarrow> tensor4) option \<Rightarrow> real \<Rightarrow> 'z \<Rightarrow> real list" where
  "create_masked_logp generative_net_fn prior_fn b loss_elemwise_fn loss_kwargs
       final_activation_fn temperature z =
     (let is_used = is_used_of b;
          raw_data = raw_data_of b;
          x = apply_activation final_activation_fn (generative_net_fn z);
          loss_elemwise = loss_elemwise_fn raw_data x loss_kwargs;
          loglike = map uminus (reduce_sum_123 (times_keep loss_elemwise is_used))
      in map2 (+) (map (\<lambda>v. temperature * v) loglike) (prior_fn z))"

text \<open>
  The prior both model classes install:
  \<^verbatim>\<open>lambda z: -tf.reduce_sum(z**2, axis=-1)/2\<close> on a batch of latent vectors.
\<close>

definition log_prior_fn :: "real list list \<Rightarrow> real list" where
  "log_prior_fn z = map (\<lambda>row. - sum_list (map (\<lambda>v. v ^ 2) row) / 2) z"

subsection \<open>Resolving the number of epochs\<close>

text \<open>
  Both \<open>train\<close> methods start with
  \<^verbatim>\<open>if epochs is None and 'epochs' in self.spec.keys(): epochs = self.spec['epochs']\<close>
  \<^verbatim>\<open>else: raise ValueError('Provide a number of epochs ...')\<close>.
\<close>

definition resolve_epochs :: "int option \<Rightarrow> spec \<Rightarrow> error + int" where
  "resolve_epochs epochs sp =
     (if epochs = None \<and> spec_epochs sp \<noteq> None
      then (case spec_epochs sp of
              Some e \<Rightarrow> Inr e
            | None \<Rightarrow> Inl (KeyError ''epochs''))
      else Inl (ValueError
        ''Provide a number of epochs to use via JSON specification or keyword argument.''))"

subsection \<open>GAN\<close>

text \<open>
  \<^verbatim>\<open>GAN.__init__(self, spec)\<close>, called with a list of positional arguments after \<open>self\<close>:
  it takes exactly one, and calls \<^verbatim>\<open>super().__init__(spec)\<close> first. \<open>rest\<close> stands for the
  remainder of the constructor (creating the networks, the losses and the two
  optimizers), which runs only if the base constructor returns.
\<close>

fun GAN_init ::
  "('d generative_model_base \<Rightarrow> error + 'g) \<Rightarrow> 'd pyarg list \<Rightarrow> error + 'g" where
  "GAN_init rest [spec_arg] =
     (case GenerativeModel_init [spec_arg] of
        Inl e \<Rightarrow> Inl e
      | Inr base \<Rightarrow> rest base)"
| "GAN_init rest args = Inl (TypeError ''__init__() takes exactly the argument spec'')"

text \<open>
  The state of a GAN that training reads and writes here: the specification, the
  iteration counters of the two Adam optimizers (each \<^verbatim>\<open>apply_gradients\<close> adds one), and
  the loss history. A loss triple depends on the networks; its entry in the history is
  kept as the minibatch index at which it was recorded.
\<close>

record gan =
  gan_spec :: spec
  D_iterations :: int
  G_iterations :: int
  loss_history :: "nat list"

definition train_discriminator :: "gan \<Rightarrow> gan" where
  "train_discriminator m = m\<lparr>D_iterations := D_iterations m + 1\<rparr>"

definition train_generator :: "gan \<Rightarrow> gan" where
  "train_generator m = m\<lparr>G_iterations := G_iterations m + 1\<rparr>"

text \<open>
  The loop over \<^verbatim>\<open>enumerate(self.dataset)\<close> from index \<open>j\<close> on. The flag beside the
  model says whether the local variable \<^verbatim>\<open>G_loss_dict\<close> has been assigned.
\<close>

fun GAN_batches :: "int \<Rightarrow> nat \<Rightarrow> 'x list \<Rightarrow> gan \<times> bool \<Rightarrow> error + gan \<times> bool" where
  "GAN_batches loss_update j [] st = Inr st"
| "GAN_batches loss_update j (x_real # rest) (m, bound) =
     (let m1 = train_discriminator m in
      case spec_gen_train_steps (gan_spec m1) of
        None \<Rightarrow> Inl (KeyError ''gen_train_steps'')
      | Some g \<Rightarrow>
          (let fire = (np_mod (D_iterations m1) g = 0);
               m2 = (if fire then train_generator m1 else m1);
               bound2 = (fire \<or> bound)
           in case py_mod (int j) loss_update of
                Inl e \<Rightarrow> Inl e
              | Inr r \<Rightarrow>
                  if r = 0 \<and> g < int j
                  then (if bound2
                        then GAN_batches loss_update (Suc j) rest
                               (m2\<lparr>loss_history := loss_history m2 @ [j]\<rparr>, bound2)
                        else Inl (UnboundLocalError ''G_loss_dict''))
                  else GAN_batches loss_update (Suc j) rest (m2, bound2)))"

text \<open>
  The loop over \<^verbatim>\<open>range(epochs)\<close>. Plotting and the sample history at the end of an
  epoch touch neither optimizer and are left out.
\<close>

fun GAN_epochs :: "nat \<Rightarrow> int \<Rightarrow> 'x list \<Rightarrow> gan \<times> bool \<Rightarrow> error + gan \<times> bool" where
  "GAN_epochs 0 loss_update ds st = Inr st"
| "GAN_epochs (Suc e) loss_update ds st =
     (case GAN_batches loss_update 0 ds st of
        Inl err \<Rightarrow> Inl err
      | Inr st' \<Rightarrow> GAN_epochs e loss_update ds st')"

text \<open>\<^verbatim>\<open>GAN.train(self, loss_update, epochs)\<close> on a dataset of minibatches \<open>ds\<close>.\<close>

definition GAN_train :: "int \<Rightarrow> int option \<Rightarrow> 'x list \<Rightarrow> gan \<Rightarrow> error + gan" where
  "GAN_train loss_update epochs ds m =
     (let m0 = m\<lparr>loss_history := []\<rparr> in
      case resolve_epochs epochs (gan_spec m0) of
        Inl e \<Rightarrow> Inl e
      | Inr n \<Rightarrow>
          (case GAN_epochs (nat n) loss_update ds (m0, False) of
             Inl e \<Rightarrow> Inl e
           | Inr st \<Rightarrow> Inr (fst st)))"

subsection \<open>VAE\<close>

text \<open>
  The state of a VAE that the schedule and training read and write here.
  \<open>beta_schedule\<close> and \<open>beta_current\<close> are attributes that exist only once assigned.
\<close>

record vae =
  vae_spec :: spec
  beta :: real
  beta_schedule :: "real list option"
  beta_current :: "real option"

text \<open>\<^verbatim>\<open>VAE.set_beta_schedule(self, beta_max, default_cycle_length)\<close>.\<close>

definition set_beta_schedule :: "vae \<Rightarrow> real \<Rightarrow> int \<Rightarrow> error + vae" where
  "set_beta_schedule m beta_max default_cycle_length =
     (case spec_epochs (vae_spec m) of
        None \<Rightarrow> Inl (KeyError ''epochs'')
      | Some n_epochs \<Rightarrow>
          (let cycle_length = (case spec_beta_cycle_length (vae_spec m) of
                                 Some c \<Rightarrow> c
                               | None \<Rightarrow> default_cycle_length)
           in case spec_beta_schedule (vae_spec m) of
                None \<Rightarrow> Inr m
              | Some schedule \<Rightarrow>
                  if schedule = ''linear''
                  then (case linspace 0 beta_max n_epochs of
                          Inl e \<Rightarrow> Inl e
                        | Inr sched \<Rightarrow> Inr (m\<lparr>beta_schedule := Some sched\<rparr>))
                  else if str_contains ''cyclic'' schedule
                  then (case int_truediv n_epochs cycle_length of
                          Inl e \<Rightarrow> Inl e
                        | Inr q \<Rightarrow>
                            (let ncycles = max q 1 in
                             case linspace 0 1 cycle_length of
                               Inl e \<Rightarrow> Inl e
                             | Inr ramp \<Rightarrow>
                                 Inr (m\<lparr>beta_schedule :=
                                   Some (map (\<lambda>v. v * beta_max) (np_tile ramp (nat ncycles)))\<rparr>)))
                  else if schedule = ''constant''
                  then (case np_ones n_epochs of
                          Inl e \<Rightarrow> Inl e
                        | Inr ones \<Rightarrow>
                            Inr (m\<lparr>beta_schedule := Some (map (\<lambda>v. v * beta_max) ones)\<rparr>))
                  else Inr m))"

text \<open>
  The loop of \<^verbatim>\<open>VAE.train\<close> over the epochs: the weight of the epoch is read from the
  schedule when there is one. \<open>epoch_body\<close> stands for the rest of an epoch (the
  minibatch updates, plotting, saving, the sample history).
\<close>

fun VAE_epochs :: "(nat \<Rightarrow> vae \<Rightarrow> error + vae) \<Rightarrow> nat list \<Rightarrow> vae \<Rightarrow> error + vae" where
  "VAE_epochs epoch_body [] m = Inr m"
| "VAE_epochs epoch_body (current_epoch # es) m =
     (case (case beta_schedule m of
              Some sched \<Rightarrow> np_index sched current_epoch
            | None \<Rightarrow> Inr (beta m)) of
        Inl e \<Rightarrow> Inl e
      | Inr b \<Rightarrow>
          (case epoch_body current_epoch (m\<lparr>beta_current := Some b\<rparr>) of
             Inl e \<Rightarrow> Inl e
           | Inr m' \<Rightarrow> VAE_epochs epoch_body es m'))"

definition VAE_train ::
  "(nat \<Rightarrow> vae \<Rightarrow> error + vae) \<Rightarrow> int option \<Rightarrow> vae \<Rightarrow> error + vae" where
  "VAE_train epoch_body epochs m =
     (case resolve_epochs epochs (vae_spec m) of
        Inl e \<Rightarrow> Inl e
      | Inr n \<Rightarrow> VAE_epochs epoch_body [0 ..< nat n] m)"

subsection \<open>Losses\<close>

text \<open>
  \<^verbatim>\<open>square_loss_elem\<close> and \<^verbatim>\<open>square_loss\<close>. (With \<open>sd = 0\<close> the floating point quotient is
  not finite, while the quotient of the reals is 0; no statement below is about it.)
\<close>

definition square_loss_elem :: "tensor4 \<Rightarrow> tensor4 \<Rightarrow> real \<Rightarrow> tensor4" where
  "square_loss_elem x_pred x_true sd =
     zip_with4 (\<lambda>p t. (p - t) ^ 2 / (2 * sd ^ 2)) x_pred x_true"

definition square_loss :: "tensor4 \<Rightarrow> tensor4 \<Rightarrow> real \<Rightarrow> real list" where
  "square_loss x_pred x_true sd =
     (let err = square_loss_elem x_pred x_true 1
      in map uminus (reduce_sum_123 err))"

text \<open>
  The squared error as the specification words it: the negative sum over the non-batch
  axes of the squared difference divided by twice the squared standard deviation given.
\<close>

definition square_loss_spec :: "tensor4 \<Rightarrow> tensor4 \<Rightarrow> real \<Rightarrow> real list" where
  "square_loss_spec x_pred x_true sd =
     map uminus (reduce_sum_123 (zip_with4 (\<lambda>p t. (p - t) ^ 2 / (2 * sd ^ 2)) x_pred x_true))"

text \<open>
  The operations of \<open>log_cb_constant\<close> on tensor elements, over the reals: a result
  that is not finite in floating point (the logarithm of a number that is not positive,
  a quotient by zero) is \<open>None\<close>.
\<close>

definition tf_log :: "real \<Rightarrow> real option" where
  "tf_log x = (if 0 < x then Some (ln x) else None)"

definition tf_div :: "real \<Rightarrow> real \<Rightarrow> real option" where
  "tf_div a b = (if b = 0 then None else Some (a / b))"

text \<open>
  \<^verbatim>\<open>tf.clip_by_value(x, clip_value_min, clip_value_max)\<close> takes the minimum with the
  upper bound first and the maximum with the lower bound second.
\<close>

definition clip_by_value :: "real \<Rightarrow> real \<Rightarrow> real \<Rightarrow> real" where
  "clip_by_value x clip_value_min clip_value_max = max (min x clip_value_max) clip_value_min"

text \<open>
  Rounding a real to the nearest floating point number with a significand of \<open>p\<close>
  bits, a tie going to the even significand. The limits of the exponent (overflow,
  subnormal numbers) are not modelled.
\<close>

definition round_half_even :: "real \<Rightarrow> int" where
  "round_half_even q =
     (let f = \<lfloor>q\<rfloor>; d = q - of_int f
      in if d < 1 / 2 then f
         else if 1 / 2 < d then f + 1
         else if even f then f else f + 1)"

definition round_to_bits :: "nat \<Rightarrow> real \<Rightarrow> real" where
  "round_to_bits p x =
     (if x = 0 then 0
      else (let e = \<lfloor>log 2 \<bar>x\<bar>\<rfloor>;
                ulp = 2 powr (of_int e - (real p - 1))
            in of_int (round_half_even (x / ulp)) * ulp))"

definition to_float64 :: "real \<Rightarrow> real" where
  "to_float64 x = round_to_bits 53 x"

definition to_float32 :: "real \<Rightarrow> real" where
  "to_float32 x = round_to_bits 24 x"

text \<open>
  The bounds \<^verbatim>\<open>eps\<close> and \<^verbatim>\<open>1-eps\<close> of the clipping as the tensor operations see them.
  \<open>eps\<close> is a Python float; \<^verbatim>\<open>1-eps\<close> is computed in double precision; both are then
  converted to the type of the tensor, which is single precision throughout the source
  (the default of Keras and of \<open>create_masked_logp\<close>).
\<close>

definition clip_lo :: "real \<Rightarrow> real" where
  "clip_lo eps = to_float32 eps"

definition clip_hi :: "real \<Rightarrow> real" where
  "clip_hi eps = to_float32 (to_float64 (1 - eps))"


text \<open>The two formulas of \<open>log_cb_constant\<close>, on one element.\<close>

definition cb_far_value :: "real \<Rightarrow> real option" where
  "cb_far_value x =
     Option.bind (tf_log (1 - x)) (\<lambda>a.
     Option.bind (tf_log x) (\<lambda>b.
     Option.bind (tf_div (a - b) (1 - 2 * x)) tf_log))"

definition cb_close_value :: "real \<Rightarrow> real option" where
  "cb_close_value x =
     Option.bind (tf_log 2) (\<lambda>l2.
     Option.bind (tf_log (1 + (1 - 2 * x) ^ 2 / 3)) (\<lambda>t. Some (l2 + t)))"

text \<open>\<^verbatim>\<open>tf.reduce_sum\<close> of a vector: finite when every element is.\<close>

fun reduce_sum_finite :: "real option list \<Rightarrow> real option" where
  "reduce_sum_finite [] = Some 0"
| "reduce_sum_finite (v # vs) =
     Option.bind v (\<lambda>a. Option.bind (reduce_sum_finite vs) (\<lambda>s. Some (a + s)))"

text \<open>
  \<^verbatim>\<open>log_cb_constant(x, eps)\<close> on the elements of \<open>x\<close> in order (indexing by the boolean
  mask flattens the tensor). The threshold of the mask is \<open>eps\<close> in single precision,
  as the lower bound of the clipping is.
\<close>

definition log_cb_constant :: "real list \<Rightarrow> real \<Rightarrow> real option" where
  "log_cb_constant x0 eps =
     (let eps32 = clip_lo eps;
          x = map (\<lambda>v. clip_by_value v eps32 (clip_hi eps)) x0;
          far = filter (\<lambda>v. eps32 \<le> \<bar>v - 1 / 2\<bar>) x;
          close = filter (\<lambda>v. \<not> eps32 \<le> \<bar>v - 1 / 2\<bar>) x;
          far_values = map cb_far_value far;
          close_values = map cb_close_value close
      in Option.bind (reduce_sum_finite far_values) (\<lambda>f.
         Option.bind (reduce_sum_finite close_values) (\<lambda>c. Some (f + c))))"

subsection \<open>Concrete inputs\<close>

text \<open>Inputs at which the statements below are evaluated.\<close>

definition example_gan_spec :: spec where
  "example_gan_spec =
     \<lparr>spec_latent_dim = Some 8, spec_image_dims = Some [28, 28, 1], spec_epochs = Some 2,
      spec_gen_train_steps = Some 2, spec_vae_beta = None, spec_beta_schedule = None,
      spec_beta_cycle_length = None\<rparr>"

definition example_gan :: gan where
  "example_gan = \<lparr>gan_spec = example_gan_spec, D_iterations = 0, G_iterations = 0,
     loss_history = []\<rparr>"

text \<open>
  A VAE as its constructor leaves it before the schedule is set, with \<open>vae_beta = 2\<close>
  and no \<open>beta_cycle_length\<close> in the specification.
\<close>

definition example_vae :: "int \<Rightarrow> string \<Rightarrow> vae" where
  "example_vae n_epochs schedule =
     \<lparr>vae_spec = \<lparr>spec_latent_dim = Some 8, spec_image_dims = Some [28, 28, 1],
                  spec_epochs = Some n_epochs, spec_gen_train_steps = None,
                  spec_vae_beta = Some 2, spec_beta_schedule = Some schedule,
                  spec_beta_cycle_length = None\<rparr>,
      beta = 2, beta_schedule = None, beta_current = None\<rparr>"

text \<open>An epoch body that changes nothing and raises nothing.\<close>

definition no_op_epoch :: "nat \<Rightarrow> vae \<Rightarrow> error + vae" where
  "no_op_epoch current_epoch m = Inr m"

text \<open>Three minibatches of two examples each.\<close>

definition example_dataset :: "nat dataset" where
  "example_dataset = \<lparr>element_batch_size = Some 2, batches = [[0, 1], [2, 3], [4, 5]]\<rparr>"

text \<open>A generative network that answers each latent vector with one zero pixel.\<close>

definition zero_image_net :: "real list list \<Rightarrow> tensor4" where
  "zero_image_net z = map (\<lambda>row. [[[0]]]) z"

text \<open>A disk that already holds an inference artifact, and a model with both networks.\<close>

definition example_disk :: "nat disk" where
  "example_disk = \<lparr>files = [''m_inference_net.h5'' \<mapsto> 7], oplog = []\<rparr>"

definition example_networks :: "nat networks" where
  "example_networks = \<lparr>generative_net = Some 1, inference_net = Some 2\<rparr>"

text \<open>A tolerance too small for single precision: the Python literal \<^verbatim>\<open>1e-9\<close>.\<close>

definition tiny_eps :: real where
  "tiny_eps = to_float64 (1 / 1000000000)"

section \<open>Verified properties\<close>

subsection \<open>Resolving the number of epochs\<close>

text \<open>
  What \<open>resolve_epochs\<close> does in each of its cases: it returns the specification's
  value when no argument is given and the key is present, and raises otherwise.
\<close>

lemma resolve_epochs_cases:
  "resolve_epochs None sp =
     (case spec_epochs sp of
        Some e \<Rightarrow> Inr e
      | None \<Rightarrow> Inl (ValueError
          ''Provide a number of epochs to use via JSON specification or keyword argument.''))"
  "resolve_epochs (Some e) sp = Inl (ValueError
     ''Provide a number of epochs to use via JSON specification or keyword argument.'')"
  by (simp_all add: resolve_epochs_def split: option.splits)

text \<open>
  C1. The claim says that a call of \<open>train\<close> with an explicit number of epochs passes
  the check. In the code the \<open>else\<close> branch belongs to the whole condition
  \<^verbatim>\<open>epochs is None and 'epochs' in self.spec.keys()\<close>, so every call of \<open>GAN.train\<close> or
  \<open>VAE.train\<close> with an explicit \<open>epochs\<close> raises the \<open>ValueError\<close> whose message asks
  for the very keyword argument that was given, before any training step.
\<close>

theorem train_explicit_epochs_raises:
  "GAN_train loss_update (Some e) ds g = Inl (ValueError
     ''Provide a number of epochs to use via JSON specification or keyword argument.'')
   \<and> VAE_train epoch_body (Some e) v = Inl (ValueError
     ''Provide a number of epochs to use via JSON specification or keyword argument.'')"
  by (simp add: GAN_train_def VAE_train_def resolve_epochs_def)

subsection \<open>Constructing a GAN\<close>

text \<open>
  C2. Constructing a GAN fails for every specification: the base constructor is
  called with one positional argument where it requires two, so the \<open>TypeError\<close> is
  raised before the base constructor's body and the rest of \<open>GAN.__init__\<close> run. No
  other list of arguments does better: \<open>GAN.__init__\<close> itself accepts one only.
\<close>

theorem GAN_init_always_fails:
  "GAN_init rest [SpecArg sp] =
     Inl (TypeError ''__init__() takes exactly the arguments spec and dataset'')
   \<and> (\<exists>msg. GAN_init rest args = Inl (TypeError msg))"
proof
  show "GAN_init rest [SpecArg sp] =
     Inl (TypeError ''__init__() takes exactly the arguments spec and dataset'')"
    by simp
next
  show "\<exists>msg. GAN_init rest args = Inl (TypeError msg)"
  proof (cases args)
    case Nil
    then show ?thesis by simp
  next
    case (Cons a as)
    then show ?thesis by (cases as) simp_all
  qed
qed

subsection \<open>The squared error\<close>

text \<open>\<open>square_loss\<close> does not depend on the standard deviation it is given.\<close>

lemma square_loss_sd_irrelevant: "square_loss x_pred x_true sd = square_loss x_pred x_true 1"
  by (simp add: square_loss_def)

text \<open>
  C4. The claim says that \<open>square_loss\<close> divides the squared error by twice the
  square of the standard deviation it is given. The code passes the constant 1 to
  \<open>square_loss_elem\<close> instead: for a prediction 1, a target 0 and \<open>sd = 2\<close> it returns
  \<open>-1/2\<close>, where the claimed value is \<open>-1/8\<close>.
\<close>

theorem square_loss_ignores_sd:
  "square_loss [[[[1]]]] [[[[0]]]] 2 = [- 1 / 2]
   \<and> square_loss_spec [[[[1]]]] [[[[0]]]] 2 = [- 1 / 8]"
  by (simp add: square_loss_def square_loss_spec_def square_loss_elem_def zip_with4_def
      reduce_sum_123_def)

subsection \<open>How often the generator trains\<close>

text \<open>Adding one to an integer moves its quotient and remainder by a positive divisor.\<close>

lemma divmod_succ_int:
  fixes d g :: int
  assumes g: "0 < g"
  shows "(d + 1) div g = (if d mod g + 1 = g then d div g + 1 else d div g)"
    and "(d + 1) mod g = (if d mod g + 1 = g then 0 else d mod g + 1)"
proof -
  have r: "0 \<le> d mod g" "d mod g < g" using g by simp_all
  have split: "d + 1 = g * (d div g) + (d mod g + 1)" by simp
  have wrap: "d + 1 = g * (d div g + 1) + 0" if "d mod g + 1 = g"
  proof -
    have "d + 1 = g * (d div g) + g" using split that by simp
    then show ?thesis by (simp add: algebra_simps)
  qed
  show "(d + 1) div g = (if d mod g + 1 = g then d div g + 1 else d div g)"
  proof (cases "d mod g + 1 = g")
    case True
    have "(d + 1) div g = d div g + 1"
      by (rule int_div_pos_eq [OF wrap [OF True]]) (use g in simp_all)
    with True show ?thesis by simp
  next
    case False
    have "(d + 1) div g = d div g"
      by (rule int_div_pos_eq [OF split]) (use r False in simp_all)
    with False show ?thesis by simp
  qed
  show "(d + 1) mod g = (if d mod g + 1 = g then 0 else d mod g + 1)"
  proof (cases "d mod g + 1 = g")
    case True
    have "(d + 1) mod g = 0"
      by (rule int_mod_pos_eq [OF wrap [OF True]]) (use g in simp_all)
    with True show ?thesis by simp
  next
    case False
    have "(d + 1) mod g = d mod g + 1"
      by (rule int_mod_pos_eq [OF split]) (use r False in simp_all)
    with False show ?thesis by simp
  qed
qed

text \<open>
  The minibatch loop with a positive \<open>gen_train_steps\<close> and a non-zero \<open>loss_update\<close>
  raises nothing: the loss is logged only after the generator has trained. It adds
  one discriminator update per minibatch, and the generator updates it adds are the
  multiples of \<open>g\<close> the discriminator counter passes.
\<close>

lemma GAN_batches_counts:
  assumes "0 < g" "lu \<noteq> 0"
  shows "spec_gen_train_steps (gan_spec m) = Some g \<Longrightarrow>
         (\<not> bound \<Longrightarrow> int j \<le> D_iterations m mod g) \<Longrightarrow>
         \<exists>m' b'. GAN_batches lu j xs (m, bound) = Inr (m', b')
           \<and> gan_spec m' = gan_spec m
           \<and> D_iterations m' = D_iterations m + int (length xs)
           \<and> G_iterations m' = G_iterations m
                + ((D_iterations m + int (length xs)) div g - D_iterations m div g)"
proof (induction xs arbitrary: j m bound)
  case Nil
  then show ?case by simp
next
  case (Cons x xs)
  let ?D = "D_iterations m"
  let ?m1 = "train_discriminator m"
  let ?fire = "(?D + 1) mod g = 0"
  let ?m2 = "if ?fire then train_generator ?m1 else ?m1"
  let ?b2 = "?fire \<or> bound"
  have g0: "g \<noteq> 0" using assms by simp
  have fire_iff: "?fire \<longleftrightarrow> ?D mod g + 1 = g"
  proof (cases "?D mod g + 1 = g")
    case True
    then show ?thesis using divmod_succ_int(2) [OF assms(1), of ?D] by simp
  next
    case False
    have "0 \<le> ?D mod g" using assms(1) by simp
    moreover have "(?D + 1) mod g = ?D mod g + 1"
      using divmod_succ_int(2) [OF assms(1), of ?D] False by simp
    ultimately have "(?D + 1) mod g \<noteq> 0" by linarith
    with False show ?thesis by simp
  qed
  have inv: "int (Suc j) \<le> D_iterations ?m2 mod g" if "\<not> ?b2"
  proof -
    from that have nf: "\<not> ?fire" and nb: "\<not> bound" by simp_all
    have "(?D + 1) mod g = ?D mod g + 1"
      using divmod_succ_int(2) [OF assms(1), of ?D] nf fire_iff by simp
    moreover have "int j \<le> ?D mod g" using Cons.prems(2) nb by simp
    ultimately show ?thesis using nf by (simp add: train_discriminator_def)
  qed
  have nolog: "bound2" if "g < int j" "bound2 = ?b2" for bound2
  proof (rule ccontr)
    assume "\<not> bound2"
    then have "int (Suc j) \<le> D_iterations ?m2 mod g" using inv that by simp
    moreover have "D_iterations ?m2 mod g < g" using assms(1) by simp
    ultimately show False using that by simp
  qed
  have sp2: "spec_gen_train_steps (gan_spec ?m2) = Some g"
    using Cons.prems(1) by (simp add: train_discriminator_def train_generator_def)
  have D2: "D_iterations ?m2 = ?D + 1"
    by (simp add: train_discriminator_def train_generator_def)
  have G2: "G_iterations ?m2 = G_iterations m + ((?D + 1) div g - ?D div g)"
    using divmod_succ_int(1) [OF assms(1), of ?D] fire_iff
    by (simp add: train_discriminator_def train_generator_def)
  have spec2: "gan_spec ?m2 = gan_spec m"
    by (simp add: train_discriminator_def train_generator_def)
  define m3 where "m3 = (if int j mod lu = 0 \<and> g < int j
                         then ?m2\<lparr>loss_history := loss_history ?m2 @ [j]\<rparr> else ?m2)"
  have step: "GAN_batches lu j (x # xs) (m, bound) = GAN_batches lu (Suc j) xs (m3, ?b2)"
    using Cons.prems(1) assms(2) g0 nolog [of ?b2]
    by (simp add: Let_def py_mod_def np_mod_def m3_def train_discriminator_def train_generator_def)
  have sp3: "spec_gen_train_steps (gan_spec m3) = Some g" using sp2 by (simp add: m3_def)
  have D3: "D_iterations m3 = ?D + 1" using D2 by (simp add: m3_def)
  have G3: "G_iterations m3 = G_iterations m + ((?D + 1) div g - ?D div g)"
    using G2 by (simp add: m3_def)
  have spec3: "gan_spec m3 = gan_spec m" using spec2 by (simp add: m3_def)
  have inv3: "int (Suc j) \<le> D_iterations m3 mod g" if "\<not> ?b2"
    using inv [OF that] by (simp add: m3_def)
  from Cons.IH [OF sp3 inv3, of ?b2]
  obtain m' b' where res: "GAN_batches lu (Suc j) xs (m3, ?b2) = Inr (m', b')"
    and r1: "gan_spec m' = gan_spec m3"
    and r2: "D_iterations m' = D_iterations m3 + int (length xs)"
    and r3: "G_iterations m' = G_iterations m3
                + ((D_iterations m3 + int (length xs)) div g - D_iterations m3 div g)"
    by blast
  show ?case
    apply (rule exI [of _ m'], rule exI [of _ b'])
    using res r1 r2 r3 step spec3 D3 G3 by (simp add: algebra_simps)
qed

lemma GAN_epochs_counts:
  assumes "0 < g" "lu \<noteq> 0"
  shows "spec_gen_train_steps (gan_spec m) = Some g \<Longrightarrow>
         \<exists>m' b'. GAN_epochs e lu ds (m, bound) = Inr (m', b')
           \<and> gan_spec m' = gan_spec m
           \<and> D_iterations m' = D_iterations m + int (e * length ds)
           \<and> G_iterations m' = G_iterations m
                + ((D_iterations m + int (e * length ds)) div g - D_iterations m div g)"
proof (induction e arbitrary: m bound)
  case 0
  then show ?case by simp
next
  case (Suc e)
  have inv: "int 0 \<le> D_iterations m mod g" if "\<not> bound"
    using assms(1) by simp
  from GAN_batches_counts [OF assms Suc.prems inv, of bound ds]
  obtain m1 b1 where res1: "GAN_batches lu 0 ds (m, bound) = Inr (m1, b1)"
    and s1: "gan_spec m1 = gan_spec m"
    and d1: "D_iterations m1 = D_iterations m + int (length ds)"
    and g1: "G_iterations m1 = G_iterations m
                + ((D_iterations m + int (length ds)) div g - D_iterations m div g)"
    by blast
  have sp1: "spec_gen_train_steps (gan_spec m1) = Some g" using s1 Suc.prems by simp
  from Suc.IH [OF sp1, of b1]
  obtain m' b' where res: "GAN_epochs e lu ds (m1, b1) = Inr (m', b')"
    and r1: "gan_spec m' = gan_spec m1"
    and r2: "D_iterations m' = D_iterations m1 + int (e * length ds)"
    and r3: "G_iterations m' = G_iterations m1
                + ((D_iterations m1 + int (e * length ds)) div g - D_iterations m1 div g)"
    by blast
  show ?case
    apply (rule exI [of _ m'], rule exI [of _ b'])
    using res1 res r1 r2 r3 s1 d1 g1 by (simp add: algebra_simps)
qed

text \<open>
  C7. With a positive \<open>gen_train_steps = g\<close> (and a non-zero \<open>loss_update\<close>), a call of
  \<open>GAN.train\<close> that takes its epochs from the specification runs one discriminator
  update per minibatch and epoch, and keeps the generator's update count equal to the
  discriminator's cumulative count divided by \<open>g\<close>, rounded down; and after a single
  discriminator update the generator trains if and only if the cumulative count is a
  multiple of \<open>g\<close>.
\<close>

theorem GAN_train_generator_frequency:
  assumes "spec_gen_train_steps (gan_spec m) = Some g" and "0 < g" and "loss_update \<noteq> 0"
    and "spec_epochs (gan_spec m) = Some n"
    and "G_iterations m = D_iterations m div g"
  shows "(\<exists>m'. GAN_train loss_update None ds m = Inr m'
           \<and> D_iterations m' = D_iterations m + int (nat n * length ds)
           \<and> G_iterations m' = D_iterations m' div g)
       \<and> (\<exists>m1 b1. GAN_batches loss_update 0 [x] (m, bound) = Inr (m1, b1)
           \<and> D_iterations m1 = D_iterations m + 1
           \<and> G_iterations m1 = (if D_iterations m1 mod g = 0 then G_iterations m + 1
                                 else G_iterations m))"
proof
  let ?m0 = "m\<lparr>loss_history := []\<rparr>"
  have sp0: "spec_gen_train_steps (gan_spec ?m0) = Some g" using assms(1) by simp
  from GAN_epochs_counts [OF assms(2,3) sp0, of "nat n" ds False]
  obtain m' b' where res: "GAN_epochs (nat n) loss_update ds (?m0, False) = Inr (m', b')"
    and r2: "D_iterations m' = D_iterations ?m0 + int (nat n * length ds)"
    and r3: "G_iterations m' = G_iterations ?m0
                + ((D_iterations ?m0 + int (nat n * length ds)) div g - D_iterations ?m0 div g)"
    by blast
  have "GAN_train loss_update None ds m = Inr m'"
    using res assms(4) by (simp add: GAN_train_def resolve_epochs_def)
  moreover have "D_iterations m' = D_iterations m + int (nat n * length ds)"
    using r2 by simp
  moreover have "G_iterations m' = D_iterations m' div g"
    using r2 r3 assms(5) by simp
  ultimately show "\<exists>m'. GAN_train loss_update None ds m = Inr m'
           \<and> D_iterations m' = D_iterations m + int (nat n * length ds)
           \<and> G_iterations m' = D_iterations m' div g"
    by blast
next
  have inv: "int 0 \<le> D_iterations m mod g" if "\<not> bound"
    using assms(2) by simp
  from GAN_batches_counts [OF assms(2,3,1) inv, of bound "[x]"]
  obtain m1 b1 where res1: "GAN_batches loss_update 0 [x] (m, bound) = Inr (m1, b1)"
    and d1: "D_iterations m1 = D_iterations m + 1"
    and g1: "G_iterations m1 = G_iterations m
                + ((D_iterations m + 1) div g - D_iterations m div g)"
    by auto
  have nonneg: "0 \<le> D_iterations m mod g" using assms(2) by simp
  have "G_iterations m1 = (if D_iterations m1 mod g = 0 then G_iterations m + 1
                                 else G_iterations m)"
  proof (cases "D_iterations m mod g + 1 = g")
    case True
    then show ?thesis
      using g1 d1 divmod_succ_int [OF assms(2), of "D_iterations m"] by simp
  next
    case False
    then have "(D_iterations m + 1) mod g = D_iterations m mod g + 1"
      and "(D_iterations m + 1) div g = D_iterations m div g"
      using divmod_succ_int [OF assms(2), of "D_iterations m"] by simp_all
    moreover from this nonneg have "(D_iterations m + 1) mod g \<noteq> 0" by linarith
    ultimately show ?thesis using g1 d1 by simp
  qed
  with res1 d1 show "\<exists>m1 b1. GAN_batches loss_update 0 [x] (m, bound) = Inr (m1, b1)
           \<and> D_iterations m1 = D_iterations m + 1
           \<and> G_iterations m1 = (if D_iterations m1 mod g = 0 then G_iterations m + 1
                                 else G_iterations m)"
    by blast
qed

text \<open>
  The theorem at two epochs over three minibatches with \<open>gen_train_steps = 2\<close>: six
  discriminator updates, three generator updates.
\<close>

theorem GAN_train_generator_frequency_witness:
  "(\<exists>m'. GAN_train 100 None [(), (), ()] example_gan = Inr m'
      \<and> D_iterations m' = 6 \<and> G_iterations m' = 3)
   \<and> (\<exists>m1 b1. GAN_batches 100 0 [()] (example_gan, False) = Inr (m1, b1)
      \<and> D_iterations m1 = 1 \<and> G_iterations m1 = 0)"
  using GAN_train_generator_frequency [of example_gan 2 100 2 "[(), (), ()]" "()" False]
  by (auto simp: example_gan_def example_gan_spec_def)

subsection \<open>The beta schedule\<close>

text \<open>Tiling a vector: the element at an index is the vector's element at the remainder.\<close>

lemma nth_np_tile: "i < k * length a \<Longrightarrow> np_tile a k ! i = a ! (i mod length a)"
proof (induction k arbitrary: i)
  case 0
  then show ?case by simp
next
  case (Suc k)
  show ?case
  proof (cases "i < length a")
    case True
    then show ?thesis by (simp add: np_tile_def nth_append)
  next
    case False
    then have "i - length a < k * length a" using Suc.prems by simp
    from Suc.IH [OF this] False show ?thesis
      by (simp add: np_tile_def nth_append le_mod_geq)
  qed
qed

lemma length_np_tile: "length (np_tile a k) = k * length a"
  by (induction k) (simp_all add: np_tile_def)

lemma np_tile_periodic:
  assumes "i + length a < length (np_tile a k)"
  shows "np_tile a k ! i = np_tile a k ! (i + length a)"
proof -
  have "i + length a < k * length a" using assms by (simp add: length_np_tile)
  then have "np_tile a k ! (i + length a) = a ! ((i + length a) mod length a)"
    and "np_tile a k ! i = a ! (i mod length a)"
    by (simp_all add: nth_np_tile)
  then show ?thesis by simp
qed

text \<open>The length and the two ends of \<open>linspace\<close>, and its range for a non-negative stop.\<close>

lemma linspace_length: "0 \<le> num \<Longrightarrow> \<exists>vs. linspace start stop num = Inr vs \<and> length vs = nat num"
  by (auto simp: linspace_def)

lemma linspace_ends:
  assumes "2 \<le> num"
  shows "\<exists>vs. linspace start stop num = Inr vs \<and> length vs = nat num
            \<and> vs ! 0 = start \<and> last vs = stop"
proof -
  let ?f = "\<lambda>i. start + real i * ((stop - start) / real_of_int (num - 1))"
  have eq: "linspace start stop num = Inr (map ?f [0 ..< nat num])"
    using assms by (simp add: linspace_def)
  have ne: "[0 ..< nat num] \<noteq> []" using assms by simp
  have "last (map ?f [0 ..< nat num]) = ?f (nat num - 1)"
    using ne by (simp add: last_map)
  also have "real (nat num - 1) = real_of_int (num - 1)" using assms by (simp add: of_nat_diff)
  then have "?f (nat num - 1) = stop" using assms by simp
  finally have l: "last (map ?f [0 ..< nat num]) = stop" .
  have "map ?f [0 ..< nat num] ! 0 = start" using assms by simp
  with eq l show ?thesis by simp
qed

lemma linspace_in_range:
  assumes "0 \<le> stop" and "linspace 0 stop num = Inr vs"
  shows "\<forall>v \<in> set vs. 0 \<le> v \<and> v \<le> stop"
proof (cases "num = 1")
  case True
  with assms show ?thesis by (auto simp: linspace_def split: if_splits)
next
  case False
  with assms(2) have neg: "\<not> num < 0"
    and vs: "vs = map (\<lambda>i. 0 + real i * ((stop - 0) / real_of_int (num - 1))) [0 ..< nat num]"
    by (auto simp: linspace_def split: if_splits)
  show ?thesis
  proof
    fix v assume "v \<in> set vs"
    then obtain i where i: "i < nat num" and v: "v = real i * (stop / real_of_int (num - 1))"
      using vs by auto
    from i neg False have d: "0 < real_of_int (num - 1)" by simp
    have le: "real i \<le> real_of_int (num - 1)" using i by linarith
    have "0 \<le> v" using v d assms(1) by simp
    moreover have "v \<le> stop"
    proof -
      have "real i * stop \<le> real_of_int (num - 1) * stop"
        using le assms(1) by (rule mult_right_mono)
      then have "real i * stop / real_of_int (num - 1) \<le> stop"
        using d by (simp add: pos_divide_le_eq mult.commute)
      then show ?thesis using v by simp
    qed
    ultimately show "0 \<le> v \<and> v \<le> stop" ..
  qed
qed

lemma np_ones_length: "0 \<le> n \<Longrightarrow> np_ones n = Inr (replicate (nat n) 1)"
  by (simp add: np_ones_def)

text \<open>
  The \<open>linear\<close> and \<open>constant\<close> schedules have one weight per epoch, each between 0
  and a non-negative \<open>beta_max\<close>.
\<close>

lemma linear_constant_schedule_ok:
  assumes ep: "spec_epochs (vae_spec m) = Some n_epochs" and n: "0 \<le> n_epochs"
    and b: "0 \<le> beta_max"
    and sch: "spec_beta_schedule (vae_spec m) = Some ''linear''
              \<or> spec_beta_schedule (vae_spec m) = Some ''constant''"
  shows "\<exists>sched. set_beta_schedule m beta_max default_cycle_length
                    = Inr (m\<lparr>beta_schedule := Some sched\<rparr>)
           \<and> length sched = nat n_epochs \<and> (\<forall>v \<in> set sched. 0 \<le> v \<and> v \<le> beta_max)"
  using sch
proof
  assume lin: "spec_beta_schedule (vae_spec m) = Some ''linear''"
  obtain vs where vs: "linspace 0 beta_max n_epochs = Inr vs" and len: "length vs = nat n_epochs"
    using linspace_length [OF n] by blast
  have "set_beta_schedule m beta_max default_cycle_length = Inr (m\<lparr>beta_schedule := Some vs\<rparr>)"
    using lin ep vs by (simp add: set_beta_schedule_def)
  with len linspace_in_range [OF b vs] show ?thesis by blast
next
  assume con: "spec_beta_schedule (vae_spec m) = Some ''constant''"
  have "set_beta_schedule m beta_max default_cycle_length
      = Inr (m\<lparr>beta_schedule := Some (map (\<lambda>v. v * beta_max) (replicate (nat n_epochs) 1))\<rparr>)"
    using con ep n by (simp add: set_beta_schedule_def np_ones_length)
  moreover have "\<forall>v \<in> set (map (\<lambda>v. v * beta_max) (replicate (nat n_epochs) 1)). 0 \<le> v \<and> v \<le> beta_max"
    using b by auto
  ultimately show ?thesis by auto
qed

text \<open>
  The \<open>cyclic\<close> schedule has as many weights as whole cycles fit into the epochs (at
  least one cycle), times the cycle length: not the number of epochs unless the cycle
  length divides it.
\<close>

lemma cyclic_schedule_length:
  assumes ep: "spec_epochs (vae_spec m) = Some n_epochs" and n: "0 \<le> n_epochs"
    and sch: "spec_beta_schedule (vae_spec m) = Some name" "name \<noteq> ''linear''"
      "str_contains ''cyclic'' name"
    and c: "c = (case spec_beta_cycle_length (vae_spec m) of
                   Some c' \<Rightarrow> c' | None \<Rightarrow> default_cycle_length)" "0 < c"
  shows "\<exists>sched. set_beta_schedule m beta_max default_cycle_length
                    = Inr (m\<lparr>beta_schedule := Some sched\<rparr>)
           \<and> length sched = nat (max (n_epochs div c) 1) * nat c"
proof -
  obtain ramp where ramp: "linspace 0 1 c = Inr ramp" and len: "length ramp = nat c"
    using linspace_length [of c 0 1] c by auto
  have q: "int_truediv n_epochs c = Inr (n_epochs div c)"
    using c n by (cases "n_epochs = 0") (simp_all add: int_truediv_def)
  have "set_beta_schedule m beta_max default_cycle_length
      = Inr (m\<lparr>beta_schedule := Some (map (\<lambda>v. v * beta_max)
               (np_tile ramp (nat (max (n_epochs div c) 1))))\<rparr>)"
    using ep sch c(1) ramp q by (simp add: set_beta_schedule_def Let_def)
  then show ?thesis using len by (auto simp: length_np_tile)
qed

text \<open>
  C3. The claim gives the schedule one weight per epoch. For a cyclic schedule the
  code tiles whole cycles only: with 7 epochs and the default cycle length 5 the
  schedule has 5 weights, and \<open>VAE.train\<close>, which reads the weight at the index of
  the current epoch, raises \<open>IndexError\<close> in the sixth epoch.
\<close>

theorem cyclic_schedule_shorter_than_epochs:
  "set_beta_schedule (example_vae 7 ''cyclic'') 2 5
     = Inr ((example_vae 7 ''cyclic'')\<lparr>beta_schedule := Some [0, 1 / 2, 1, 3 / 2, 2]\<rparr>)
   \<and> VAE_train no_op_epoch None
        ((example_vae 7 ''cyclic'')\<lparr>beta_schedule := Some [0, 1 / 2, 1, 3 / 2, 2]\<rparr>)
     = Inl IndexError"
  by (simp add: example_vae_def set_beta_schedule_def int_truediv_def linspace_def np_tile_def
      VAE_train_def resolve_epochs_def no_op_epoch_def np_index_def eval_nat_numeral upt_rec)

text \<open>
  C9. For a specification with \<open>epochs = n_epochs\<close>: the \<open>constant\<close> schedule is
  \<open>n_epochs\<close> weights all equal to \<open>beta_max\<close>; the \<open>linear\<close> schedule over at least two
  epochs starts at 0 and ends at \<open>beta_max\<close>; a schedule whose name contains
  \<open>cyclic\<close>, with a positive cycle length \<open>c\<close>, has equal weights at any two indices
  \<open>i\<close> and \<open>i + c\<close> within it.
\<close>

theorem beta_schedule_values:
  assumes ep: "spec_epochs (vae_spec m) = Some n_epochs"
  shows "(spec_beta_schedule (vae_spec m) = Some ''constant'' \<and> 0 \<le> n_epochs \<longrightarrow>
           (\<exists>sched. set_beta_schedule m beta_max default_cycle_length
                       = Inr (m\<lparr>beta_schedule := Some sched\<rparr>)
              \<and> length sched = nat n_epochs \<and> (\<forall>v \<in> set sched. v = beta_max)))
       \<and> (spec_beta_schedule (vae_spec m) = Some ''linear'' \<and> 2 \<le> n_epochs \<longrightarrow>
           (\<exists>sched. set_beta_schedule m beta_max default_cycle_length
                       = Inr (m\<lparr>beta_schedule := Some sched\<rparr>)
              \<and> sched ! 0 = 0 \<and> last sched = beta_max))
       \<and> (\<forall>name c. spec_beta_schedule (vae_spec m) = Some name \<and> name \<noteq> ''linear''
              \<and> str_contains ''cyclic'' name
              \<and> c = (case spec_beta_cycle_length (vae_spec m) of
                       Some c' \<Rightarrow> c' | None \<Rightarrow> default_cycle_length)
              \<and> 0 < c \<longrightarrow>
           (\<exists>sched. set_beta_schedule m beta_max default_cycle_length
                       = Inr (m\<lparr>beta_schedule := Some sched\<rparr>)
              \<and> (\<forall>i. i + nat c < length sched \<longrightarrow> sched ! i = sched ! (i + nat c))))"
proof (intro conjI impI allI)
  assume a: "spec_beta_schedule (vae_spec m) = Some ''constant'' \<and> 0 \<le> n_epochs"
  then have "set_beta_schedule m beta_max default_cycle_length
      = Inr (m\<lparr>beta_schedule := Some (map (\<lambda>v. v * beta_max) (replicate (nat n_epochs) 1))\<rparr>)"
    using ep by (simp add: set_beta_schedule_def np_ones_length)
  then show "\<exists>sched. set_beta_schedule m beta_max default_cycle_length
                       = Inr (m\<lparr>beta_schedule := Some sched\<rparr>)
              \<and> length sched = nat n_epochs \<and> (\<forall>v \<in> set sched. v = beta_max)"
    by auto
next
  assume a: "spec_beta_schedule (vae_spec m) = Some ''linear'' \<and> 2 \<le> n_epochs"
  then obtain vs where vs: "linspace 0 beta_max n_epochs = Inr vs"
    and ends: "vs ! 0 = 0" "last vs = beta_max"
    using linspace_ends [of n_epochs 0 beta_max] by blast
  have "set_beta_schedule m beta_max default_cycle_length = Inr (m\<lparr>beta_schedule := Some vs\<rparr>)"
    using a ep vs by (simp add: set_beta_schedule_def)
  with ends show "\<exists>sched. set_beta_schedule m beta_max default_cycle_length
                       = Inr (m\<lparr>beta_schedule := Some sched\<rparr>)
              \<and> sched ! 0 = 0 \<and> last sched = beta_max"
    by blast
next
  fix name c
  assume a: "spec_beta_schedule (vae_spec m) = Some name \<and> name \<noteq> ''linear''
              \<and> str_contains ''cyclic'' name
              \<and> c = (case spec_beta_cycle_length (vae_spec m) of
                       Some c' \<Rightarrow> c' | None \<Rightarrow> default_cycle_length)
              \<and> 0 < c"
  then have c: "0 < c" by simp
  obtain ramp where ramp: "linspace 0 1 c = Inr ramp" and len: "length ramp = nat c"
    using linspace_length [of c 0 1] c by auto
  obtain q where q: "int_truediv n_epochs c = Inr q"
    using c by (simp add: int_truediv_def)
  let ?tiled = "np_tile ramp (nat (max q 1))"
  let ?sched = "map (\<lambda>v. v * beta_max) ?tiled"
  have res: "set_beta_schedule m beta_max default_cycle_length
      = Inr (m\<lparr>beta_schedule := Some ?sched\<rparr>)"
    using a ep ramp q by (simp add: set_beta_schedule_def Let_def)
  have "?sched ! i = ?sched ! (i + nat c)" if "i + nat c < length ?sched" for i
  proof -
    from that have lt: "i + length ramp < length ?tiled" using len by simp
    then have "?tiled ! i = ?tiled ! (i + length ramp)" by (rule np_tile_periodic)
    moreover have "i < length ?tiled" using lt by simp
    ultimately show ?thesis using lt len by simp
  qed
  with res show "\<exists>sched. set_beta_schedule m beta_max default_cycle_length
                       = Inr (m\<lparr>beta_schedule := Some sched\<rparr>)
              \<and> (\<forall>i. i + nat c < length sched \<longrightarrow> sched ! i = sched ! (i + nat c))"
    by blast
qed

text \<open>
  The theorem at three constant epochs, four linear epochs and ten cyclic epochs, with
  \<open>beta_max = 2\<close> and the default cycle length 5.
\<close>

theorem beta_schedule_values_witness:
  "(\<exists>sched. set_beta_schedule (example_vae 3 ''constant'') 2 5
               = Inr ((example_vae 3 ''constant'')\<lparr>beta_schedule := Some sched\<rparr>)
       \<and> length sched = 3 \<and> sched = [2, 2, 2])
   \<and> (\<exists>sched. set_beta_schedule (example_vae 4 ''linear'') 2 5
               = Inr ((example_vae 4 ''linear'')\<lparr>beta_schedule := Some sched\<rparr>)
       \<and> sched ! 0 = 0 \<and> last sched = 2)
   \<and> (\<exists>sched. set_beta_schedule (example_vae 10 ''cyclic'') 2 5
               = Inr ((example_vae 10 ''cyclic'')\<lparr>beta_schedule := Some sched\<rparr>)
       \<and> sched ! 2 = sched ! 7)"
proof -
  have ep: "spec_epochs (vae_spec (example_vae n s)) = Some n" for n s
    by (simp add: example_vae_def)
  from beta_schedule_values [OF ep, of 3 "''constant''" 2 5]
  have 1: "\<exists>sched. set_beta_schedule (example_vae 3 ''constant'') 2 5
               = Inr ((example_vae 3 ''constant'')\<lparr>beta_schedule := Some sched\<rparr>)
       \<and> length sched = 3 \<and> sched = [2, 2, 2]"
    by (simp add: example_vae_def set_beta_schedule_def np_ones_def eval_nat_numeral)
  from beta_schedule_values [OF ep, of 4 "''linear''" 2 5]
  have 2: "\<exists>sched. set_beta_schedule (example_vae 4 ''linear'') 2 5
               = Inr ((example_vae 4 ''linear'')\<lparr>beta_schedule := Some sched\<rparr>)
       \<and> sched ! 0 = 0 \<and> last sched = 2"
    by (simp add: example_vae_def)
  from beta_schedule_values [OF ep, of 10 "''cyclic''" 2 5]
  have 3: "\<exists>sched. set_beta_schedule (example_vae 10 ''cyclic'') 2 5
               = Inr ((example_vae 10 ''cyclic'')\<lparr>beta_schedule := Some sched\<rparr>)
       \<and> sched ! 2 = sched ! 7"
    by (simp add: example_vae_def set_beta_schedule_def int_truediv_def linspace_def
        np_tile_def eval_nat_numeral)
  from 1 2 3 show ?thesis by blast
qed

subsection \<open>Sampling the training data\<close>

text \<open>
  Pulling \<open>k\<close> minibatches from an iterator that holds at least \<open>k\<close> gives its first
  \<open>k\<close>; minibatches of one size add up; and pulling until \<open>n\<close> examples are there
  gives the first \<open>n\<close> examples of the stream.
\<close>

lemma pull_batches_take: "k \<le> length it \<Longrightarrow> pull_batches k it = Inr (take k it)"
proof (induction k arbitrary: it)
  case 0
  then show ?case by simp
next
  case (Suc k)
  then obtain b rest where it: "it = b # rest" by (cases it) auto
  with Suc show ?case by simp
qed

lemma length_concat_fixed:
  "\<forall>b \<in> set bs. length b = s \<Longrightarrow> length (concat bs) = length bs * s"
  by (induction bs) auto

lemma pull_until_take:
  "n \<le> length (acc @ concat it) \<Longrightarrow> pull_until n it acc = Some (take n (acc @ concat it))"
  by (induction it arbitrary: acc) auto

text \<open>
  C8, as the claim states it, fails. The code does not pull until \<open>n\<close> examples are
  there: it always pulls \<open>n div batch_size + 1\<close> minibatches. When the batch size
  divides \<open>n\<close> that is one more than \<open>n\<close> examples need: on three minibatches of two
  examples and \<open>n = 6\<close>, pulling until six examples are there gives the six, and the
  code raises \<open>StopIteration\<close>.
\<close>

theorem sample_training_divisible_counterexample:
  "element_batch_size example_dataset = Some 2
   \<and> list_all (\<lambda>b. length b = 2) (batches example_dataset)
   \<and> sample_training_spec example_dataset 6 = Some [0, 1, 2, 3, 4, 5]
   \<and> sample_training example_dataset 6 = Inl StopIteration"
  by (simp add: example_dataset_def sample_training_def sample_training_spec_def
      int_truediv_def eval_nat_numeral)

text \<open>
  C8, amended. For \<open>n \<ge> 1\<close> and a dataset of minibatches of one size
  \<open>batch_size \<ge> 1\<close> that holds at least \<open>n div batch_size + 1\<close> minibatches,
  \<open>sample_training\<close> returns exactly \<open>n\<close> examples: the first \<open>n\<close> of the dataset, which is
  also what pulling whole minibatches until at least \<open>n\<close> examples are there and cutting
  to \<open>n\<close> gives; also when the batch size does not divide \<open>n\<close>.
\<close>

theorem sample_training_exact:
  assumes bs: "element_batch_size ds = Some batch_size" and pos: "0 < batch_size" and n: "1 \<le> n"
    and fixed: "\<forall>b \<in> set (batches ds). length b = batch_size"
    and enough: "nat n div batch_size + 1 \<le> length (batches ds)"
  shows "\<exists>r. sample_training ds n = Inr r
           \<and> length r = nat n
           \<and> r = take (nat n) (concat (batches ds))
           \<and> sample_training_spec ds (nat n) = Some r"
proof -
  let ?k = "nat n div batch_size + 1"
  have q: "int_truediv n (int batch_size) = Inr (n div int batch_size)"
    using pos n by (simp add: int_truediv_def)
  have k: "nat (n div int batch_size + 1) = ?k"
  proof -
    have "0 \<le> n div int batch_size"
      using n pos by (simp add: pos_imp_zdiv_nonneg_iff)
    moreover have "nat (n div int batch_size) = nat n div batch_size"
      using nat_div_distrib [of n "int batch_size"] n by simp
    ultimately show ?thesis by (simp add: nat_add_distrib)
  qed
  have pulled: "pull_batches ?k (batches ds) = Inr (take ?k (batches ds))"
    using enough by (rule pull_batches_take)
  have nonempty: "take ?k (batches ds) \<noteq> []" using enough by auto
  have len_pulled: "length (concat (take ?k (batches ds))) = ?k * batch_size"
  proof -
    have "\<forall>b \<in> set (take ?k (batches ds)). length b = batch_size"
      using fixed by (meson in_set_takeD)
    from length_concat_fixed [OF this] show ?thesis using enough by simp
  qed
  have more: "nat n < ?k * batch_size"
    using pos by (simp add: dividend_less_div_times)
  have code: "sample_training ds n = Inr (take (nat n) (concat (take ?k (batches ds))))"
    using bs q k pulled nonempty n by (simp add: sample_training_def slice_to_def)
  have split: "concat (batches ds) = concat (take ?k (batches ds)) @ concat (drop ?k (batches ds))"
    by (metis append_take_drop_id concat_append)
  have same: "take (nat n) (concat (batches ds)) = take (nat n) (concat (take ?k (batches ds)))"
    using more len_pulled by (simp add: split)
  have len: "length (take (nat n) (concat (take ?k (batches ds)))) = nat n"
    using more len_pulled by simp
  have "nat n \<le> length ([] @ concat (batches ds))"
    using more len_pulled by (simp add: split)
  from pull_until_take [OF this]
  have spec: "sample_training_spec ds (nat n) = Some (take (nat n) (concat (batches ds)))"
    by (simp add: sample_training_spec_def)
  show ?thesis using code same len spec by simp
qed

text \<open>The theorem at \<open>n = 3\<close> on minibatches of size 2, which does not divide 3.\<close>

theorem sample_training_exact_witness:
  "sample_training example_dataset 3 = Inr [0, 1, 2]
   \<and> sample_training_spec example_dataset 3 = Some [0, 1, 2]"
  using sample_training_exact [of example_dataset 2 3]
  by (simp add: example_dataset_def)

subsection \<open>The masked log-probability\<close>

text \<open>
  Multiplying by the keep-mask of a mask with no \<open>True\<close> entry changes nothing, as
  multiplying by the scalar 1 does.
\<close>

lemma map2_keep:
  assumes "\<And>x b. R x b \<Longrightarrow> Q b \<Longrightarrow> F x (G b) = x"
  shows "list_all2 R xs bs \<Longrightarrow> list_all Q bs \<Longrightarrow> map2 F xs (map G bs) = xs"
  by (induction rule: list_all2_induct) (simp_all add: assms)

lemma times_unmasked:
  assumes "same_shape t is_masked" and "all_entries False is_masked"
  shows "zip_with4 (*) t (map4 (\<lambda>v. real_of_int (1 - (if v then 1 else 0))) is_masked) = t"
proof -
  let ?g = "\<lambda>v. real_of_int (1 - (if v then 1 else 0))"
  have l1: "map2 (*) xs (map ?g bs) = xs"
    if "list_all2 (\<lambda>a b. True) xs bs" "list_all (\<lambda>b. b = False) bs" for xs :: "real list" and bs
    using that by (rule map2_keep [rotated]) simp
  have l2: "map2 (map2 (*)) xs (map (map ?g) bs) = xs"
    if "list_all2 (list_all2 (\<lambda>a b. True)) xs bs" "list_all (list_all (\<lambda>b. b = False)) bs"
    for xs :: "real list list" and bs
    using that by (rule map2_keep [rotated]) (rule l1)
  have l3: "map2 (map2 (map2 (*))) xs (map (map (map ?g)) bs) = xs"
    if "list_all2 (list_all2 (list_all2 (\<lambda>a b. True))) xs bs"
       "list_all (list_all (list_all (\<lambda>b. b = False))) bs"
    for xs :: "real list list list" and bs
    using that by (rule map2_keep [rotated]) (rule l2)
  have l4: "map2 (map2 (map2 (map2 (*)))) xs (map (map (map (map ?g))) bs) = xs"
    if "list_all2 (list_all2 (list_all2 (list_all2 (\<lambda>a b. True)))) xs bs"
       "list_all (list_all (list_all (list_all (\<lambda>b. b = False)))) bs"
    for xs :: "real list list list list" and bs
    using that by (rule map2_keep [rotated]) (rule l3)
  show ?thesis
    using assms l4 [of t is_masked] by (simp add: zip_with4_def map4_def same_shape_def all_entries_def)
qed

lemma times_keep_all: "times_keep t KeepAll = t"
  by (simp add: times_keep_def map4_def)

text \<open>
  C5, as the claim states it, fails: numpy marks a masked-out element with \<open>True\<close>, and
  the code keeps the elements whose mask entry is \<open>False\<close>. With the mask all
  \<open>True\<close> every element is dropped and only the prior is left: on one pixel of value
  1, a network that outputs 0 and the squared error, the masked closure gives 0 where
  the unmasked one gives \<open>-1/2\<close>.
\<close>

theorem masked_logp_all_true_mask_counterexample:
  "all_entries True [[[[True]]]]
   \<and> create_masked_logp zero_image_net log_prior_fn (MaskedArray [[[[1]]]] [[[[True]]]])
       square_loss_elem 1 None 1 [[0]] = [0]
   \<and> create_masked_logp zero_image_net log_prior_fn (Plain [[[[1]]]])
       square_loss_elem 1 None 1 [[0]] = [- 1 / 2]
   \<and> create_masked_logp zero_image_net log_prior_fn (MaskedArray [[[[1]]]] [[[[True]]]])
       square_loss_elem 1 None 1 [[0]]
     \<noteq> create_masked_logp zero_image_net log_prior_fn (Plain [[[[1]]]])
       square_loss_elem 1 None 1 [[0]]"
  by (simp add: all_entries_def square_loss_elem_def zip_with4_def
      apply_activation_def zero_image_net_def create_masked_logp_def is_used_of_def
      raw_data_of_def times_keep_def map4_def reduce_sum_123_def log_prior_fn_def)

text \<open>
  C5, amended. For a masked batch whose mask is all \<open>False\<close> (no element masked out)
  and has the shape of the elementwise loss, the closure evaluates at every \<open>z\<close> to the
  same value as the closure for the same data without a mask, with the same loss,
  activation, temperature and prior.
\<close>

theorem masked_logp_unmasked_mask:
  assumes "all_entries False is_masked"
    and "same_shape (loss_elemwise_fn dat
           (apply_activation final_activation_fn (generative_net_fn z)) loss_kwargs) is_masked"
  shows "create_masked_logp generative_net_fn prior_fn (MaskedArray dat is_masked)
           loss_elemwise_fn loss_kwargs final_activation_fn temperature z
       = create_masked_logp generative_net_fn prior_fn (Plain dat)
           loss_elemwise_fn loss_kwargs final_activation_fn temperature z"
  using times_unmasked [OF assms(2,1)]
  by (simp add: create_masked_logp_def is_used_of_def raw_data_of_def times_keep_def map4_def)

text \<open>The theorem on one pixel of value 1 with the squared error.\<close>

theorem masked_logp_unmasked_mask_witness:
  "create_masked_logp zero_image_net log_prior_fn (MaskedArray [[[[1]]]] [[[[False]]]])
       square_loss_elem 1 None 1 [[0]]
     = create_masked_logp zero_image_net log_prior_fn (Plain [[[[1]]]])
       square_loss_elem 1 None 1 [[0]]
   \<and> create_masked_logp zero_image_net log_prior_fn (Plain [[[[1]]]])
       square_loss_elem 1 None 1 [[0]] = [- 1 / 2]"
  using masked_logp_unmasked_mask [of "[[[[False]]]]" square_loss_elem "[[[[1]]]]" None
      zero_image_net "[[0]]" 1 log_prior_fn 1]
  by (simp add: all_entries_def same_shape_def square_loss_elem_def zip_with4_def
      apply_activation_def zero_image_net_def create_masked_logp_def is_used_of_def
      raw_data_of_def times_keep_def map4_def reduce_sum_123_def log_prior_fn_def)

subsection \<open>Saving\<close>

text \<open>What saving one sub-network does to the disk.\<close>

lemma save_net_effect:
  "files (save_net path net overwrite d) = (files d)(path \<mapsto> net)"
  "oplog (save_net path net overwrite d)
     = oplog d @ (if exists path d then [Remove path] else []) @ [Save path net overwrite]"
  by (simp_all add: save_net_def keras_save_def remove_def exists_def)

lemma paths_differ: "prefix @ ''_inference_net.h5'' \<noteq> prefix @ ''_generative_net.h5''"
  by simp

text \<open>
  C6. \<open>save\<close> raises the \<open>ValueError\<close> for a missing model if and only if neither
  sub-network is present. When one is present no error is raised, each present
  sub-network is the content of its artifact path afterwards, and the calls made are,
  for the inference network and then the generative one, the removal of the file at
  the path if there was one followed by the write.
\<close>

theorem save_behaviour:
  "(fst (save m prefix overwrite d) = Inl (ValueError ''No model object found for saving.''))
      = (generative_net m = None \<and> inference_net m = None)
   \<and> (generative_net m \<noteq> None \<or> inference_net m \<noteq> None
        \<longrightarrow> fst (save m prefix overwrite d) = Inr ())
   \<and> (\<forall>net. inference_net m = Some net
        \<longrightarrow> files (snd (save m prefix overwrite d)) (prefix @ ''_inference_net.h5'') = Some net)
   \<and> (\<forall>net. generative_net m = Some net
        \<longrightarrow> files (snd (save m prefix overwrite d)) (prefix @ ''_generative_net.h5'') = Some net)
   \<and> oplog (snd (save m prefix overwrite d))
        = oplog d @ expected_ops (prefix @ ''_inference_net.h5'') (inference_net m) overwrite d
                  @ expected_ops (prefix @ ''_generative_net.h5'') (generative_net m) overwrite d"
  by (cases "inference_net m"; cases "generative_net m")
     (simp_all add: save_def Let_def save_net_effect expected_ops_def exists_def)

text \<open>
  The theorem on a model with both networks and a disk that holds an old inference
  artifact, with \<open>overwrite\<close> off; and on a model with no network.
\<close>

theorem save_behaviour_witness:
  "fst (save example_networks ''m'' False example_disk) = Inr ()
   \<and> files (snd (save example_networks ''m'' False example_disk)) ''m_inference_net.h5'' = Some 2
   \<and> files (snd (save example_networks ''m'' False example_disk)) ''m_generative_net.h5'' = Some 1
   \<and> oplog (snd (save example_networks ''m'' False example_disk))
        = [Remove ''m_inference_net.h5'', Save ''m_inference_net.h5'' 2 False,
           Save ''m_generative_net.h5'' 1 False]
   \<and> fst (save \<lparr>generative_net = None, inference_net = None\<rparr> ''m'' False example_disk)
        = Inl (ValueError ''No model object found for saving.'')"
  using save_behaviour [of example_networks "''m''" False example_disk]
    save_behaviour [of "\<lparr>generative_net = None, inference_net = None\<rparr>" "''m''" False example_disk]
  by (simp add: example_networks_def example_disk_def expected_ops_def exists_def)

subsection \<open>The continuous Bernoulli constant\<close>

text \<open>
  Rounding to \<open>p\<close> bits, for a number that a power of two scales into the range of the
  significands of \<open>p\<close> bits; and the bounds of the clipping for the default tolerance
  and for the tolerance \<open>1e-9\<close>, whose upper bound rounds to 1.
\<close>

lemma two_powr_int_diff: "2 powr (real_of_int (int m - int k)) = (2::real) ^ m / 2 ^ k"
proof -
  have "2 powr (real_of_int (int m - int k)) = 2 powr (real m - real k)" by simp
  also have "\<dots> = 2 powr real m / 2 powr real k" by (rule powr_diff)
  also have "\<dots> = (2::real) ^ m / 2 ^ k" by (simp add: powr_realpow)
  finally show ?thesis .
qed

lemma round_to_bits_scaled:
  assumes p: "0 < p" and lo: "2 ^ (p - 1) \<le> x * 2 ^ k" and hi: "x * 2 ^ k < 2 ^ p"
  shows "round_to_bits p x = of_int (round_half_even (x * 2 ^ k)) / 2 ^ k"
proof -
  have pos: "0 < x"
  proof (rule ccontr)
    assume "\<not> 0 < x"
    then have "x * 2 ^ k \<le> 0" by (simp add: mult_le_0_iff)
    moreover have "(0::real) < 2 ^ (p - 1)" by simp
    ultimately show False using lo by linarith
  qed
  have l: "2 powr (real_of_int (int (p - 1) - int k)) \<le> x"
    using lo by (simp only: two_powr_int_diff) (simp add: field_simps)
  have h: "x < 2 powr (real_of_int (int (p - 1) - int k + 1))"
  proof -
    have "int (p - 1) - int k + 1 = int p - int k" using p by simp
    then show ?thesis using hi by (simp only: two_powr_int_diff) (simp add: field_simps)
  qed
  have e: "\<lfloor>log 2 x\<rfloor> = int (p - 1) - int k"
    using pos l h by (simp only: floor_log_eq_powr_iff [of x 2] one_less_numeral_iff
        semiring_norm simp_thms)
  have ulp: "2 powr (real_of_int \<lfloor>log 2 x\<rfloor> - (real p - 1)) = 1 / (2::real) ^ k"
  proof -
    have "real_of_int \<lfloor>log 2 x\<rfloor> - (real p - 1) = - real k"
      using p by (simp add: e of_nat_diff)
    then show ?thesis by (simp add: powr_minus_divide powr_realpow)
  qed
  have "round_to_bits p x
      = of_int (round_half_even (x / 2 powr (real_of_int \<lfloor>log 2 x\<rfloor> - (real p - 1))))
          * 2 powr (real_of_int \<lfloor>log 2 x\<rfloor> - (real p - 1))"
    using pos by (simp add: round_to_bits_def Let_def)
  also have "\<dots> = of_int (round_half_even (x * 2 ^ k)) / 2 ^ k"
    by (simp only: ulp) simp
  finally show ?thesis .
qed




lemma tiny_eps_value: "tiny_eps = 4835703278458517 / 2 ^ 82"
  unfolding tiny_eps_def to_float64_def
  by (subst round_to_bits_scaled [where k = 82]) (simp_all add: round_half_even_def)

lemma clip_lo_tiny: "clip_lo tiny_eps = 9007199 / 2 ^ 53"
  unfolding clip_lo_def to_float32_def tiny_eps_value
  by (subst round_to_bits_scaled [where k = 53]) (simp_all add: round_half_even_def)

lemma clip_hi_tiny: "clip_hi tiny_eps = 1"
proof -
  have "to_float64 (1 - tiny_eps) = 9007199245733793 / 2 ^ 53"
    unfolding to_float64_def tiny_eps_value
    by (subst round_to_bits_scaled [where k = 53]) (simp_all add: round_half_even_def)
  then show ?thesis
    unfolding clip_hi_def to_float32_def
    by (simp only:) (subst round_to_bits_scaled [where k = 24], simp_all add: round_half_even_def)
qed







text \<open>
  The bound \<open>hi < 1\<close> is needed: for the tolerance \<open>1e-9\<close> the upper bound rounds to 1,
  the element 1 is not clipped, and the far formula takes the logarithm of 0.
\<close>

lemma log_cb_constant_tiny_eps: "log_cb_constant [1] tiny_eps = None"
  by (simp add: log_cb_constant_def Let_def clip_lo_tiny clip_hi_tiny
      clip_by_value_def cb_far_value_def tf_log_def)

end
